theory Spec2Isabelle
  imports Main "HOL-Library.FSet" "HOL-Library.Finite_Map" "HOL-Library.List_Lexorder" "HOL-Library.Char_ord"
begin

section \<open>The signaling relay of \<^verbatim>\<open>functions/index.js\<close>\<close>

text \<open>
  The program is one HTTP function, \<^verbatim>\<open>webRTCSignaling\<close>, that dispatches on an
  \<^verbatim>\<open>action\<close> field to seven handlers, and one scheduled function,
  \<^verbatim>\<open>cleanupInactiveRooms\<close>. All state lives in a keyed tree store under
  \<^verbatim>\<open>rooms/<roomId>\<close>. The embedding passes the store explicitly: every handler
  takes the store and returns its outcome together with the store it leaves behind, so
  that a handler that throws after a write would keep the write.

  The embedding has two levels. The handlers \<open>createRoom\<close>, \<open>joinRoom\<close>, ... below
  are the source functions for ids that are keys of the store: a room id \<open>'r\<close> is the
  one path segment under \<^verbatim>\<open>rooms\<close> at which a room node sits, a player id \<open>'p\<close> the
  one segment under \<^verbatim>\<open>players\<close> or \<^verbatim>\<open>notifications\<close>. The source itself builds
  its paths from the text of the request (\<^verbatim>\<open>`rooms/${roomId}`\<close>), and a text with a
  \<^verbatim>\<open>/\<close> names a node inside another room. The second level (\<open>on_join_room\<close>, ...,
  and \<open>webRTCSignaling\<close>) takes the ids as text, decides what the path names, and
  applies the handlers of the first level where the ids are keys.

  The store hands the children of a node out in its key order, and \<^verbatim>\<open>Object.keys\<close>
  and \<^verbatim>\<open>for ... in\<close> enumerate them in a fixed order of the keys; the embedding
  leaves that order abstract as the linear order of the key type. Payloads \<open>'d\<close> are
  opaque.
\<close>

subsection \<open>Constants\<close>

definition MAX_PLAYERS :: nat where
  "MAX_PLAYERS = 8"

definition ROOM_TIMEOUT :: int where
  "ROOM_TIMEOUT = 24 * 60 * 60 * 1000"

subsection \<open>Data\<close>

text \<open>The objects handed to \<^verbatim>\<open>addNotification\<close>, by their \<^verbatim>\<open>type\<close> field.\<close>

datatype ('p, 'd) notification =
    New_player 'p
  | Player_left 'p
  | Offer 'p 'd
  | Answer 'p 'd
  | New_ice_candidates 'p "'d list"

text \<open>
  The node \<^verbatim>\<open>rooms/<roomId>\<close>. \<open>players\<close> is the key set of the
  \<^verbatim>\<open>players\<close> child (every value there is \<^verbatim>\<open>true\<close>); an empty set is an
  absent child. \<open>notifications\<close> maps a recipient to the values of its mailbox in the
  order of their generated keys, which is the order of the pushes; an empty list is an
  absent mailbox. A candidate is stored under
  \<^verbatim>\<open>ice_candidates/<sender>/candidate_<time>_<index>\<close>, here the key
  \<open>(time, index)\<close>. Every room node is written by \<^verbatim>\<open>createRoom\<close>, whose
  \<^verbatim>\<open>set\<close> gives it a host and a creation time.
\<close>

record ('p, 'd) room =
  host :: 'p
  players :: "'p fset"
  createdAt :: int
  offers :: "'p \<rightharpoonup> 'd"
  answers :: "'p \<rightharpoonup> 'd"
  ice_candidates :: "'p \<Rightarrow> (int \<times> nat) \<rightharpoonup> 'd"
  notifications :: "'p \<Rightarrow> ('p, 'd) notification list"

type_synonym ('r, 'p, 'd) db = "('r, ('p, 'd) room) fmap"

text \<open>The errors thrown, and the messages they carry in the source.\<close>

datatype error =
    AlreadyExists
  | NotFound
  | RoomFull
  | InvalidDirection
  | InvalidAction string
  | StoreFailure

text \<open>
  \<open>StoreFailure\<close> is an error thrown by the store itself when it refuses a key; its
  message is the store's own.
\<close>

fun error_message :: "error \<Rightarrow> string option" where
  "error_message AlreadyExists = Some ''Room already exists''"
| "error_message NotFound = Some ''Room not found''"
| "error_message RoomFull = Some ''Room is full''"
| "error_message InvalidDirection = Some ''Invalid offer direction''"
| "error_message (InvalidAction a) = Some (''Invalid action: '' @ a)"
| "error_message StoreFailure = None"

text \<open>The objects returned by the handlers.\<close>

datatype ('r, 'p, 'd) result =
    Room_created 'r
  | Joined_room 'p 'r
  | Room_closed
  | Left_room
  | Offer_sent
  | Answer_sent
  | ICE_candidates_sent
  | Notifications "('p, 'd) notification list"

fun result_message :: "('r, 'p, 'd) result \<Rightarrow> string option" where
  "result_message (Room_created _) = Some ''Room created''"
| "result_message (Joined_room _ _) = Some ''Joined room''"
| "result_message Room_closed = Some ''Room closed (last player left)''"
| "result_message Left_room = Some ''Left room''"
| "result_message Offer_sent = Some ''Offer sent''"
| "result_message Answer_sent = Some ''Answer sent''"
| "result_message ICE_candidates_sent = Some ''ICE candidates sent''"
| "result_message (Notifications _) = None"

type_synonym ('r, 'p, 'd) outcome = "(error + ('r, 'p, 'd) result) \<times> ('r, 'p, 'd) db"

subsection \<open>Store access\<close>

text \<open>
  A write below \<^verbatim>\<open>rooms/<roomId>\<close>, for a room id that is a key. Every call in the source comes after the
  handler has read the room and found it (or, in \<^verbatim>\<open>pollNotifications\<close>, is a
  removal, which does nothing below an absent node), so on an absent room it is the
  identity.
\<close>

definition update_room ::
  "'r \<Rightarrow> (('p, 'd) room \<Rightarrow> ('p, 'd) room) \<Rightarrow> ('r, 'p, 'd) db \<Rightarrow> ('r, 'p, 'd) db" where
  "update_room roomId f db =
     (case fmlookup db roomId of
        None \<Rightarrow> db
      | Some r \<Rightarrow> fmupd roomId (f r) db)"

text \<open>
  The read that opens \<^verbatim>\<open>joinRoom\<close>, \<^verbatim>\<open>leaveRoom\<close>, \<^verbatim>\<open>sendOffer\<close> and
  \<^verbatim>\<open>sendAnswer\<close>: \<^verbatim>\<open>roomRef.once('value')\<close>, \<^verbatim>\<open>val()\<close>, and
  \<^verbatim>\<open>throw new Error('Room not found')\<close> when the node is absent. Here \<open>roomId\<close> is
  a key, so the node read is the room node under that key or nothing. What the same
  read finds when the id is a text with a \<^verbatim>\<open>/\<close> in it is \<open>room_ref\<close> below.
\<close>

definition get_room :: "'r \<Rightarrow> ('r, 'p, 'd) db \<Rightarrow> error + ('p, 'd) room" where
  "get_room roomId db =
     (case fmlookup db roomId of
        None \<Rightarrow> Inl NotFound
      | Some roomData \<Rightarrow> Inr roomData)"

text \<open>
  The read of \<^verbatim>\<open>rooms/<roomId>/notifications/<playerId>\<close> in
  \<^verbatim>\<open>pollNotifications\<close>: \<^verbatim>\<open>Object.values(snapshot.val() || {})\<close>, the empty
  list when nothing is stored there.
\<close>

definition read_notifications :: "'r \<Rightarrow> 'p \<Rightarrow> ('r, 'p, 'd) db \<Rightarrow> ('p, 'd) notification list" where
  "read_notifications roomId playerId db =
     (case fmlookup db roomId of
        None \<Rightarrow> []
      | Some r \<Rightarrow> notifications r playerId)"

text \<open>\<^verbatim>\<open>Object.keys\<close> of a \<^verbatim>\<open>players\<close> snapshot.\<close>

definition Object_keys :: "'p::linorder fset \<Rightarrow> 'p list" where
  "Object_keys ps = sorted_list_of_fset ps"

text \<open>\<^verbatim>\<open>addNotification\<close>: a push to the end of the recipient's mailbox.\<close>

definition addNotification ::
  "'r \<Rightarrow> 'p \<Rightarrow> ('p, 'd) notification \<Rightarrow> ('r, 'p, 'd) db \<Rightarrow> ('r, 'p, 'd) db" where
  "addNotification roomId playerId notification db =
     update_room roomId
       (\<lambda>r. r\<lparr>notifications := (notifications r)(playerId := notifications r playerId @ [notification])\<rparr>)
       db"

subsection \<open>Handlers, on ids that are keys\<close>

text \<open>
  The object \<^verbatim>\<open>createRoom\<close> writes with \<^verbatim>\<open>roomRef.set\<close>: the three fields it
  names, and nothing below any other child. \<open>now\<close> is the value the server puts in
  place of \<^verbatim>\<open>ServerValue.TIMESTAMP\<close>.
\<close>

definition new_room :: "'p \<Rightarrow> int \<Rightarrow> ('p, 'd) room" where
  "new_room hostId now =
     \<lparr>host = hostId, players = {|hostId|}, createdAt = now,
      offers = Map.empty, answers = Map.empty,
      ice_candidates = (\<lambda>_. Map.empty), notifications = (\<lambda>_. [])\<rparr>"

text \<open>
  \<^verbatim>\<open>createRoom\<close> for a room id and a host id that are keys. The store refuses a host
  id that is no key when it is written as a key of \<^verbatim>\<open>players\<close>; that failure is in
  \<open>on_create_room\<close> below.
\<close>

definition createRoom :: "int \<Rightarrow> 'r \<Rightarrow> 'p \<Rightarrow> ('r, 'p, 'd) db \<Rightarrow> ('r, 'p, 'd) outcome" where
  "createRoom now roomId hostId db =
     (case fmlookup db roomId of
        Some _ \<Rightarrow> (Inl AlreadyExists, db)
      | None \<Rightarrow> (Inr (Room_created roomId), fmupd roomId (new_room hostId now) db))"

definition joinRoom :: "'r \<Rightarrow> 'p \<Rightarrow> ('r, 'p, 'd) db \<Rightarrow> ('r, 'p, 'd) outcome" where
  "joinRoom roomId playerId db =
     (case get_room roomId db of
        Inl e \<Rightarrow> (Inl e, db)
      | Inr roomData \<Rightarrow>
          if fcard (players roomData) \<ge> MAX_PLAYERS then (Inl RoomFull, db)
          else
            let db1 = update_room roomId (\<lambda>r. r\<lparr>players := finsert playerId (players r)\<rparr>) db;
                db2 = addNotification roomId (host roomData) (New_player playerId) db1
            in (Inr (Joined_room (host roomData) roomId), db2))"

definition leaveRoom ::
  "'r \<Rightarrow> 'p::linorder \<Rightarrow> ('r, 'p, 'd) db \<Rightarrow> ('r, 'p, 'd) outcome" where
  "leaveRoom roomId playerId db =
     (case get_room roomId db of
        Inl e \<Rightarrow> (Inl e, db)
      | Inr roomData \<Rightarrow>
          let db1 = update_room roomId (\<lambda>r. r\<lparr>players := players r |-| {|playerId|}\<rparr>) db;
              updatedPlayers = (case fmlookup db1 roomId of None \<Rightarrow> {||} | Some r \<Rightarrow> players r)
          in
            if updatedPlayers = {||} then (Inr Room_closed, fmdrop roomId db1)
            else
              let db2 = (if playerId = host roomData
                         then update_room roomId (\<lambda>r. r\<lparr>host := hd (Object_keys updatedPlayers)\<rparr>) db1
                         else db1);
                  db3 = fold (\<lambda>remainingPlayerId. addNotification roomId remainingPlayerId (Player_left playerId))
                          (Object_keys updatedPlayers) db2
              in (Inr Left_room, db3))"

definition sendOffer :: "'r \<Rightarrow> 'p \<Rightarrow> 'p \<Rightarrow> 'd \<Rightarrow> ('r, 'p, 'd) db \<Rightarrow> ('r, 'p, 'd) outcome" where
  "sendOffer roomId senderId targetId offer db =
     (case get_room roomId db of
        Inl e \<Rightarrow> (Inl e, db)
      | Inr roomData \<Rightarrow>
          if senderId \<noteq> host roomData \<and> targetId \<noteq> host roomData then (Inl InvalidDirection, db)
          else
            let db1 = update_room roomId (\<lambda>r. r\<lparr>offers := (offers r)(senderId \<mapsto> offer)\<rparr>) db;
                db2 = addNotification roomId targetId (Offer senderId offer) db1
            in (Inr Offer_sent, db2))"

definition sendAnswer :: "'r \<Rightarrow> 'p \<Rightarrow> 'p \<Rightarrow> 'd \<Rightarrow> ('r, 'p, 'd) db \<Rightarrow> ('r, 'p, 'd) outcome" where
  "sendAnswer roomId senderId targetId answer db =
     (case get_room roomId db of
        Inl e \<Rightarrow> (Inl e, db)
      | Inr roomData \<Rightarrow>
          let db1 = update_room roomId (\<lambda>r. r\<lparr>answers := (answers r)(senderId \<mapsto> answer)\<rparr>) db;
              db2 = addNotification roomId targetId (Answer senderId answer) db1
          in (Inr Answer_sent, db2))"

text \<open>
  \<^verbatim>\<open>sendIceCandidates\<close> reads \<^verbatim>\<open>Date.now()\<close> once for each candidate;
  \<open>clock index\<close> is the value read for the candidate at \<open>index\<close>.
\<close>

definition sendIceCandidates ::
  "(nat \<Rightarrow> int) \<Rightarrow> 'r \<Rightarrow> 'p \<Rightarrow> 'p \<Rightarrow> 'd list \<Rightarrow> ('r, 'p, 'd) db \<Rightarrow> ('r, 'p, 'd) outcome" where
  "sendIceCandidates clock roomId senderId targetId candidates db =
     (case fmlookup db roomId of
        None \<Rightarrow> (Inl NotFound, db)
      | Some _ \<Rightarrow>
          let updates = zip [0 ..< length candidates] candidates;
              db1 = update_room roomId
                      (\<lambda>r. r\<lparr>ice_candidates := (ice_candidates r)
                               (senderId := fold (\<lambda>(index, candidate) m. m((clock index, index) \<mapsto> candidate))
                                              updates (ice_candidates r senderId))\<rparr>) db;
              db2 = addNotification roomId targetId (New_ice_candidates senderId candidates) db1
          in (Inr ICE_candidates_sent, db2))"

definition pollNotifications :: "'r \<Rightarrow> 'p \<Rightarrow> ('r, 'p, 'd) db \<Rightarrow> ('r, 'p, 'd) outcome" where
  "pollNotifications roomId playerId db =
     (let notifications = read_notifications roomId playerId db;
          db1 = update_room roomId (\<lambda>r. r\<lparr>notifications := (room.notifications r)(playerId := [])\<rparr>) db
      in (Inr (Notifications notifications), db1))"

subsection \<open>The scheduled sweep\<close>

text \<open>
  \<^verbatim>\<open>cleanupInactiveRooms\<close> takes one snapshot of \<^verbatim>\<open>rooms\<close>, walks its keys and
  removes from the store every room whose \<^verbatim>\<open>createdAt\<close> in the snapshot is below
  the cutoff. \<open>now\<close> is the \<^verbatim>\<open>Date.now()\<close> read at the start.
\<close>

definition cleanupInactiveRooms ::
  "int \<Rightarrow> ('r::linorder, 'p, 'd) db \<Rightarrow> ('r, 'p, 'd) db" where
  "cleanupInactiveRooms now db =
     (let cutoff = now - ROOM_TIMEOUT;
          rooms = db
      in fold (\<lambda>roomId d.
                 case fmlookup rooms roomId of
                   None \<Rightarrow> d
                 | Some r \<Rightarrow> if createdAt r < cutoff then fmdrop roomId d else d)
              (sorted_list_of_fset (fmdom rooms)) db)"

subsection \<open>Ids as the request carries them\<close>

text \<open>
  A request carries its ids as text, and the source puts the text into a path:
  \<^verbatim>\<open>db.ref(`rooms/${roomId}`)\<close>, \<^verbatim>\<open>.child(playerId)\<close>,
  \<^verbatim>\<open>{[playerId]: true}\<close>. A key of the store is a non-empty text without the
  characters \<^verbatim>\<open>. # $ [ ] /\<close> and without ASCII control characters (0 to 31, 127).
  The store also bounds the length of every path it writes (768 bytes); ids of at most 256
  bytes keep every path the handlers build within that bound. \<open>valid_key\<close> is the
  text that is certainly a key on every path the handlers use.
\<close>

definition forbidden_char :: "char \<Rightarrow> bool" where
  "forbidden_char c \<longleftrightarrow> c \<in> set ''.#$[]/'' \<or> (of_char c :: nat) < 32 \<or> (of_char c :: nat) = 127"

definition key_text :: "string \<Rightarrow> bool" where
  "key_text k \<longleftrightarrow> k \<noteq> [] \<and> list_all (\<lambda>c. \<not> forbidden_char c) k"

definition valid_key :: "string \<Rightarrow> bool" where
  "valid_key k \<longleftrightarrow> key_text k \<and> length k \<le> 256"

text \<open>
  A room id of the form \<^verbatim>\<open><key>/players\<close> makes \<^verbatim>\<open>rooms/${roomId}\<close> the path of
  the \<^verbatim>\<open>players\<close> child of the room under that key. \<open>players_path\<close> gives the key.
\<close>

definition players_path :: "string \<Rightarrow> string option" where
  "players_path roomId =
     (let k = take (length roomId - 8) roomId
      in if drop (length roomId - 8) roomId = ''/players'' \<and> valid_key k then Some k else None)"

text \<open>
  What \<^verbatim>\<open>db.ref(`rooms/${roomId}`).once('value')\<close> finds, as far as the embedding
  follows it: the room node when the id is a key with a room under it; the
  \<^verbatim>\<open>players\<close> node of a room (an object, so both \<^verbatim>\<open>exists()\<close> and a truthy
  \<^verbatim>\<open>val()\<close>) when the id is \<^verbatim>\<open><key>/players\<close> and the room has players; nothing
  when the id is of one of these two forms and no node is there. Any other text is not
  followed.
\<close>

datatype 'd found =
    Room_node "(string, 'd) room"
  | Players_node
  | No_node
  | Unfollowed

definition room_ref :: "(string, string, 'd) db \<Rightarrow> string \<Rightarrow> 'd found" where
  "room_ref db roomId =
     (if valid_key roomId then
        (case fmlookup db roomId of
           None \<Rightarrow> No_node
         | Some r \<Rightarrow> Room_node r)
      else
        (case players_path roomId of
           None \<Rightarrow> Unfollowed
         | Some k \<Rightarrow>
             (case fmlookup db k of
                None \<Rightarrow> No_node
              | Some r \<Rightarrow> if players r = {||} then No_node else Players_node)))"

text \<open>
  What a handler does with the ids of a request. \<open>Responds\<close>: it returns or throws, and
  the store is as given. \<open>Goes_on\<close>: its check has let it through at a path that is no
  room node (for \<^verbatim>\<open>createRoom\<close>: that holds nothing), and it goes on to write below that
  path, inside another room, where this store of rooms cannot follow it.
  \<open>Not_followed\<close>: the embedding does not say what happens.
\<close>

datatype 'd reply =
    Responds "(string, string, 'd) outcome"
  | Goes_on
  | Not_followed

subsection \<open>Handlers, on the ids of a request\<close>

text \<open>
  Each follows its source function in the order of its statements: the read and the check
  on what it finds, then the checks that need no key, then the writes, which need every id
  they put into a path to be a key. On ids that are keys these are the handlers above.
  In \<open>on_create_room\<close> the \<^verbatim>\<open>set\<close> is refused by the store, before anything is
  written, when the host id is empty or has a forbidden character.
\<close>

definition on_create_room :: "int \<Rightarrow> string \<Rightarrow> string \<Rightarrow> (string, string, 'd) db \<Rightarrow> 'd reply" where
  "on_create_room now roomId hostId db =
     (case room_ref db roomId of
        Unfollowed \<Rightarrow> Not_followed
      | Room_node _ \<Rightarrow> Responds (Inl AlreadyExists, db)
      | Players_node \<Rightarrow> Responds (Inl AlreadyExists, db)
      | No_node \<Rightarrow>
          if \<not> key_text hostId then Responds (Inl StoreFailure, db)
          else if \<not> valid_key hostId then Not_followed
          else if valid_key roomId then Responds (createRoom now roomId hostId db)
          else Goes_on)"

definition on_join_room :: "string \<Rightarrow> string \<Rightarrow> (string, string, 'd) db \<Rightarrow> 'd reply" where
  "on_join_room roomId playerId db =
     (case room_ref db roomId of
        Unfollowed \<Rightarrow> Not_followed
      | No_node \<Rightarrow> Responds (Inl NotFound, db)
      | Players_node \<Rightarrow> if valid_key playerId then Goes_on else Not_followed
      | Room_node roomData \<Rightarrow>
          if fcard (players roomData) \<ge> MAX_PLAYERS then Responds (Inl RoomFull, db)
          else if valid_key playerId then Responds (joinRoom roomId playerId db)
          else Not_followed)"

definition on_leave_room :: "string \<Rightarrow> string \<Rightarrow> (string, string, 'd) db \<Rightarrow> 'd reply" where
  "on_leave_room roomId playerId db =
     (case room_ref db roomId of
        Unfollowed \<Rightarrow> Not_followed
      | No_node \<Rightarrow> Responds (Inl NotFound, db)
      | Players_node \<Rightarrow> if valid_key playerId then Goes_on else Not_followed
      | Room_node roomData \<Rightarrow>
          if valid_key playerId then Responds (leaveRoom roomId playerId db)
          else Not_followed)"

definition on_offer :: "string \<Rightarrow> string \<Rightarrow> string \<Rightarrow> 'd \<Rightarrow> (string, string, 'd) db \<Rightarrow> 'd reply" where
  "on_offer roomId senderId targetId offer db =
     (case room_ref db roomId of
        Unfollowed \<Rightarrow> Not_followed
      | No_node \<Rightarrow> Responds (Inl NotFound, db)
      | Players_node \<Rightarrow> Not_followed
      | Room_node roomData \<Rightarrow>
          if senderId \<noteq> host roomData \<and> targetId \<noteq> host roomData then Responds (Inl InvalidDirection, db)
          else if valid_key senderId \<and> valid_key targetId
          then Responds (sendOffer roomId senderId targetId offer db)
          else Not_followed)"

definition on_answer :: "string \<Rightarrow> string \<Rightarrow> string \<Rightarrow> 'd \<Rightarrow> (string, string, 'd) db \<Rightarrow> 'd reply" where
  "on_answer roomId senderId targetId answer db =
     (case room_ref db roomId of
        Unfollowed \<Rightarrow> Not_followed
      | No_node \<Rightarrow> Responds (Inl NotFound, db)
      | Players_node \<Rightarrow> if valid_key senderId \<and> valid_key targetId then Goes_on else Not_followed
      | Room_node roomData \<Rightarrow>
          if valid_key senderId \<and> valid_key targetId
          then Responds (sendAnswer roomId senderId targetId answer db)
          else Not_followed)"

definition on_ice_candidates ::
  "(nat \<Rightarrow> int) \<Rightarrow> string \<Rightarrow> string \<Rightarrow> string \<Rightarrow> 'd list \<Rightarrow> (string, string, 'd) db \<Rightarrow> 'd reply" where
  "on_ice_candidates clock roomId senderId targetId candidates db =
     (case room_ref db roomId of
        Unfollowed \<Rightarrow> Not_followed
      | No_node \<Rightarrow> Responds (Inl NotFound, db)
      | Players_node \<Rightarrow> if valid_key senderId \<and> valid_key targetId then Goes_on else Not_followed
      | Room_node roomData \<Rightarrow>
          if valid_key senderId \<and> valid_key targetId
          then Responds (sendIceCandidates clock roomId senderId targetId candidates db)
          else Not_followed)"

text \<open>
  \<^verbatim>\<open>pollNotifications\<close> reads no room: its one path is
  \<^verbatim>\<open>rooms/${roomId}/notifications/${playerId}\<close>, followed when both ids are keys.
\<close>

definition on_poll_notifications :: "string \<Rightarrow> string \<Rightarrow> (string, string, 'd) db \<Rightarrow> 'd reply" where
  "on_poll_notifications roomId playerId db =
     (if valid_key roomId \<and> valid_key playerId
      then Responds (pollNotifications roomId playerId db)
      else Not_followed)"

subsection \<open>The request dispatcher\<close>

text \<open>
  The \<^verbatim>\<open>switch (action)\<close> of \<^verbatim>\<open>webRTCSignaling\<close>. A request is its action
  with the fields the handler is given; any other action string throws
  \<^verbatim>\<open>'Invalid action: ' + action\<close>. \<open>now\<close> is the server's timestamp written by
  \<^verbatim>\<open>createRoom\<close>. The \<^verbatim>\<open>try ... catch\<close> turns a thrown error into the failure
  response, here \<open>Inl\<close>; what was written before the throw stays written.
\<close>

datatype ('r, 'p, 'd) request =
    act_create_room 'r 'p
  | act_join_room 'r 'p
  | act_poll_notifications 'r 'p
  | act_leave_room 'r 'p
  | act_offer 'r 'p 'p 'd
  | act_answer 'r 'p 'p 'd
  | act_ice_candidates 'r 'p 'p "'d list"
  | act_other string

fun webRTCSignaling ::
  "int \<Rightarrow> (nat \<Rightarrow> int) \<Rightarrow> (string, string, 'd) request \<Rightarrow> (string, string, 'd) db \<Rightarrow> 'd reply" where
  "webRTCSignaling now clock (act_create_room roomId playerId) db = on_create_room now roomId playerId db"
| "webRTCSignaling now clock (act_join_room roomId playerId) db = on_join_room roomId playerId db"
| "webRTCSignaling now clock (act_poll_notifications roomId playerId) db = on_poll_notifications roomId playerId db"
| "webRTCSignaling now clock (act_leave_room roomId playerId) db = on_leave_room roomId playerId db"
| "webRTCSignaling now clock (act_offer roomId playerId targetId data) db = on_offer roomId playerId targetId data db"
| "webRTCSignaling now clock (act_answer roomId playerId targetId data) db = on_answer roomId playerId targetId data db"
| "webRTCSignaling now clock (act_ice_candidates roomId playerId targetId data) db =
     on_ice_candidates clock roomId playerId targetId data db"
| "webRTCSignaling now clock (act_other action) db = Responds (Inl (InvalidAction action), db)"


section \<open>Properties\<close>

subsection \<open>Store writes and reads\<close>

lemma update_room_absent: "fmlookup db roomId = None \<Longrightarrow> update_room roomId f db = db"
  by (simp add: update_room_def)

lemma update_room_present: "fmlookup db roomId = Some r \<Longrightarrow> update_room roomId f db = fmupd roomId (f r) db"
  by (simp add: update_room_def)

lemma update_room_fmupd: "update_room roomId f (fmupd roomId r db) = fmupd roomId (f r) db"
  by (simp add: update_room_def)

lemma addNotification_present:
  "fmlookup db roomId = Some r \<Longrightarrow>
   addNotification roomId q n db =
     fmupd roomId (r\<lparr>notifications := (notifications r)(q := notifications r q @ [n])\<rparr>) db"
  by (simp add: addNotification_def update_room_present)

lemma addNotification_absent: "fmlookup db roomId = None \<Longrightarrow> addNotification roomId q n db = db"
  by (simp add: addNotification_def update_room_absent)

lemma fold_addNotification_present:
  "fmlookup db roomId = Some r \<Longrightarrow> distinct qs \<Longrightarrow>
   fold (\<lambda>q. addNotification roomId q n) qs db =
     fmupd roomId
       (r\<lparr>notifications := (\<lambda>q. if q \<in> set qs then notifications r q @ [n] else notifications r q)\<rparr>) db"
proof (induction qs arbitrary: db r)
  case Nil
  then show ?case by (intro fmap_ext) auto
next
  case (Cons a qs)
  let ?r1 = "r\<lparr>notifications := (notifications r)(a := notifications r a @ [n])\<rparr>"
  have step: "addNotification roomId a n db = fmupd roomId ?r1 db"
    using Cons.prems(1) by (rule addNotification_present)
  have look: "fmlookup (fmupd roomId ?r1 db) roomId = Some ?r1" by simp
  have d: "distinct qs" and a: "a \<notin> set qs" using Cons.prems(2) by simp_all
  have fn: "(\<lambda>q. if q \<in> set qs then notifications ?r1 q @ [n] else notifications ?r1 q) =
            (\<lambda>q. if q \<in> set (a # qs) then notifications r q @ [n] else notifications r q)"
    using a by (auto simp: fun_eq_iff)
  have "fold (\<lambda>q. addNotification roomId q n) (a # qs) db =
        fold (\<lambda>q. addNotification roomId q n) qs (fmupd roomId ?r1 db)"
    by (simp add: step)
  also have "\<dots> = fmupd roomId
       (?r1\<lparr>notifications := (\<lambda>q. if q \<in> set qs then notifications ?r1 q @ [n] else notifications ?r1 q)\<rparr>)
       (fmupd roomId ?r1 db)"
    by (rule Cons.IH [OF look d])
  also have "\<dots> = fmupd roomId
       (r\<lparr>notifications := (\<lambda>q. if q \<in> set (a # qs) then notifications r q @ [n] else notifications r q)\<rparr>) db"
    unfolding fn by simp
  finally show ?case .
qed

lemma Object_keys_set: "set (Object_keys ps) = fset ps"
  by (simp add: Object_keys_def)

lemma Object_keys_distinct: "distinct (Object_keys ps)"
  by (simp add: Object_keys_def sorted_list_of_fset.rep_eq)

lemma Object_keys_hd: "ps \<noteq> {||} \<Longrightarrow> hd (Object_keys ps) |\<in>| ps"
proof -
  assume "ps \<noteq> {||}"
  then have "Object_keys ps \<noteq> []"
    by (metis Object_keys_set bot_fset.rep_eq fset_inverse set_empty)
  then have "hd (Object_keys ps) \<in> set (Object_keys ps)" by simp
  then show ?thesis by (simp add: Object_keys_set)
qed


lemma get_room_present: "fmlookup db roomId = Some r \<Longrightarrow> get_room roomId db = Inr r"
  by (simp add: get_room_def)

lemma get_room_absent: "fmlookup db roomId = None \<Longrightarrow> get_room roomId db = Inl NotFound"
  by (simp add: get_room_def)

lemma leaveRoom_remaining:
  fixes db :: "('r, 'p::linorder, 'd) db"
  assumes look: "fmlookup db roomId = Some room"
    and rest: "players room |-| {|playerId|} \<noteq> {||}"
  shows "leaveRoom roomId playerId db =
     (Inr Left_room,
      fmupd roomId
        (room\<lparr>players := players room |-| {|playerId|},
              host := (if playerId = host room then hd (Object_keys (players room |-| {|playerId|})) else host room),
              notifications := (\<lambda>q. if q |\<in>| players room |-| {|playerId|}
                                then notifications room q @ [Player_left playerId]
                                else notifications room q)\<rparr>)
        db)"
proof -
  let ?ps = "players room |-| {|playerId|}"
  let ?n = "Player_left playerId :: ('p, 'd) notification"
  let ?r1 = "room\<lparr>players := ?ps\<rparr>"
  let ?db1 = "fmupd roomId ?r1 db"
  let ?r2 = "?r1\<lparr>host := (if playerId = host room then hd (Object_keys ?ps) else host room)\<rparr>"
  let ?db2 = "fmupd roomId ?r2 db"
  have db1: "update_room roomId (\<lambda>r. r\<lparr>players := players r |-| {|playerId|}\<rparr>) db = ?db1"
    using look by (simp add: update_room_present)
  have look1: "fmlookup ?db1 roomId = Some ?r1" by simp
  have db2: "(if playerId = host room
              then update_room roomId (\<lambda>r. r\<lparr>host := hd (Object_keys ?ps)\<rparr>) ?db1
              else ?db1) = ?db2"
    by (simp add: update_room_fmupd)
  have look2: "fmlookup ?db2 roomId = Some ?r2" by simp
  have db3: "fold (\<lambda>q. addNotification roomId q ?n) (Object_keys ?ps) ?db2 =
      fmupd roomId (?r2\<lparr>notifications := (\<lambda>q. if q \<in> set (Object_keys ?ps)
                                then notifications ?r2 q @ [?n]
                                else notifications ?r2 q)\<rparr>) ?db2"
    by (rule fold_addNotification_present [OF look2 Object_keys_distinct])
  have "leaveRoom roomId playerId db =
      (let db1 = ?db1;
           updatedPlayers = (case fmlookup db1 roomId of None \<Rightarrow> {||} | Some r \<Rightarrow> players r)
       in if updatedPlayers = {||} then (Inr Room_closed, fmdrop roomId db1)
          else let db2 = (if playerId = host room
                          then update_room roomId (\<lambda>r. r\<lparr>host := hd (Object_keys updatedPlayers)\<rparr>) db1
                          else db1);
                   db3 = fold (\<lambda>q. addNotification roomId q ?n) (Object_keys updatedPlayers) db2
               in (Inr Left_room, db3))"
    unfolding leaveRoom_def get_room_present [OF look] db1 by simp
  also have "\<dots> = (let db2 = (if playerId = host room
                          then update_room roomId (\<lambda>r. r\<lparr>host := hd (Object_keys ?ps)\<rparr>) ?db1
                          else ?db1)
                  in (Inr Left_room, fold (\<lambda>q. addNotification roomId q ?n) (Object_keys ?ps) db2))"
    using rest by (simp add: Let_def)
  also have "\<dots> = (Inr Left_room, fold (\<lambda>q. addNotification roomId q ?n) (Object_keys ?ps) ?db2)"
    unfolding db2 by (simp only: Let_def)
  also have "\<dots> = (Inr Left_room, fmupd roomId (?r2\<lparr>notifications := (\<lambda>q. if q \<in> set (Object_keys ?ps)
                                then notifications ?r2 q @ [?n]
                                else notifications ?r2 q)\<rparr>) ?db2)"
    by (simp only: db3)
  finally show ?thesis
    by (simp add: Object_keys_set cong: if_cong)
qed


subsection \<open>The handlers on a room that is present\<close>

lemma joinRoom_success:
  assumes "fmlookup db roomId = Some room"
    and "fcard (players room) < MAX_PLAYERS"
  shows "joinRoom roomId playerId db =
     (Inr (Joined_room (host room) roomId),
      fmupd roomId
        (room\<lparr>players := finsert playerId (players room),
              notifications := (notifications room)
                 (host room := notifications room (host room) @ [New_player playerId])\<rparr>)
        db)"
  using assms
  by (simp add: joinRoom_def get_room_present update_room_present addNotification_def
        update_room_fmupd Let_def)

lemma joinRoom_full:
  assumes "fmlookup db roomId = Some room"
    and "MAX_PLAYERS \<le> fcard (players room)"
  shows "joinRoom roomId playerId db = (Inl RoomFull, db)"
  using assms by (simp add: joinRoom_def get_room_present)

lemma joinRoom_absent:
  assumes "fmlookup db roomId = None"
  shows "joinRoom roomId playerId db = (Inl NotFound, db)"
  using assms by (simp add: joinRoom_def get_room_absent)

lemma sendOffer_present:
  assumes "fmlookup db roomId = Some room"
  shows "sendOffer roomId senderId targetId payload db =
     (if senderId \<noteq> host room \<and> targetId \<noteq> host room then (Inl InvalidDirection, db)
      else (Inr Offer_sent,
            fmupd roomId
              (room\<lparr>offers := (offers room)(senderId \<mapsto> payload),
                    notifications := (notifications room)
                       (targetId := notifications room targetId @ [Offer senderId payload])\<rparr>)
              db))"
  using assms
  by (simp add: sendOffer_def get_room_present update_room_present addNotification_def
        update_room_fmupd Let_def)


subsection \<open>Mailboxes\<close>






subsection \<open>The sweep, key by key\<close>

lemma cleanup_fold_lookup:
  "fmlookup (fold (\<lambda>roomId d. case fmlookup rooms roomId of
                                None \<Rightarrow> d
                              | Some r \<Rightarrow> if createdAt r < cutoff then fmdrop roomId d else d) ks d0) x =
     (if x \<in> set ks \<and> (\<exists>r. fmlookup rooms x = Some r \<and> createdAt r < cutoff) then None
      else fmlookup d0 x)"
  by (induction ks arbitrary: d0) (auto split: option.splits)

subsection \<open>Requests whose ids are keys\<close>

text \<open>
  On ids that are keys the handlers of the second level are those of the first.
\<close>

lemma room_ref_key:
  "valid_key roomId \<Longrightarrow>
   room_ref db roomId = (case fmlookup db roomId of None \<Rightarrow> No_node | Some r \<Rightarrow> Room_node r)"
  by (simp add: room_ref_def)

lemma valid_key_text: "valid_key k \<Longrightarrow> key_text k"
  by (simp add: valid_key_def)

lemma on_create_room_keys:
  "valid_key roomId \<Longrightarrow> valid_key hostId \<Longrightarrow>
   on_create_room now roomId hostId db = Responds (createRoom now roomId hostId db)"
  by (cases "fmlookup db roomId")
     (simp_all add: on_create_room_def room_ref_key valid_key_text createRoom_def)

lemma on_join_room_keys:
  "valid_key roomId \<Longrightarrow> valid_key playerId \<Longrightarrow>
   on_join_room roomId playerId db = Responds (joinRoom roomId playerId db)"
  by (cases "fmlookup db roomId")
     (simp_all add: on_join_room_def room_ref_key joinRoom_absent joinRoom_full)

lemma leaveRoom_absent:
  fixes db :: "('r, 'p::linorder, 'd) db"
  assumes "fmlookup db roomId = None"
  shows "leaveRoom roomId playerId db = (Inl NotFound, db)"
  using assms by (simp add: leaveRoom_def get_room_absent)

lemma on_leave_room_keys:
  "valid_key roomId \<Longrightarrow> valid_key playerId \<Longrightarrow>
   on_leave_room roomId playerId db = Responds (leaveRoom roomId playerId db)"
  by (cases "fmlookup db roomId")
     (simp_all add: on_leave_room_def room_ref_key leaveRoom_absent)

lemma on_offer_keys:
  "valid_key roomId \<Longrightarrow> valid_key senderId \<Longrightarrow> valid_key targetId \<Longrightarrow>
   on_offer roomId senderId targetId payload db = Responds (sendOffer roomId senderId targetId payload db)"
  by (cases "fmlookup db roomId")
     (simp_all add: on_offer_def room_ref_key sendOffer_present, simp add: sendOffer_def get_room_absent)

lemma on_answer_keys:
  "valid_key roomId \<Longrightarrow> valid_key senderId \<Longrightarrow> valid_key targetId \<Longrightarrow>
   on_answer roomId senderId targetId payload db = Responds (sendAnswer roomId senderId targetId payload db)"
  by (cases "fmlookup db roomId")
     (simp_all add: on_answer_def room_ref_key sendAnswer_def get_room_absent)

lemma on_ice_candidates_keys:
  "valid_key roomId \<Longrightarrow> valid_key senderId \<Longrightarrow> valid_key targetId \<Longrightarrow>
   on_ice_candidates clock roomId senderId targetId candidates db =
     Responds (sendIceCandidates clock roomId senderId targetId candidates db)"
  by (cases "fmlookup db roomId")
     (simp_all add: on_ice_candidates_def room_ref_key sendIceCandidates_def)

lemma on_poll_notifications_keys:
  "valid_key roomId \<Longrightarrow> valid_key playerId \<Longrightarrow>
   on_poll_notifications roomId playerId db = Responds (pollNotifications roomId playerId db)"
  by (simp add: on_poll_notifications_def)

text \<open>
  A leave by a player who is neither a member nor the recorded host, from a room that has
  players: nothing is removed, and every member is notified.
\<close>

lemma leaveRoom_outsider:
  fixes db :: "('r, 'p::linorder, 'd) db"
  assumes "fmlookup db roomId = Some room"
    and "playerId |\<notin>| players room"
    and "players room \<noteq> {||}"
    and "playerId \<noteq> host room"
  shows "\<exists>room'.
           leaveRoom roomId playerId db = (Inr Left_room, fmupd roomId room' db)
         \<and> players room' = players room
         \<and> host room' = host room
         \<and> (\<forall>q. q |\<in>| players room \<longrightarrow> notifications room' q = notifications room q @ [Player_left playerId])
         \<and> (\<forall>q. q |\<notin>| players room \<longrightarrow> notifications room' q = notifications room q)"
proof -
  have same: "players room |-| {|playerId|} = players room"
    using assms(2) by auto
  have rest: "players room |-| {|playerId|} \<noteq> {||}"
    using assms(3) same by simp
  let ?room' = "room\<lparr>players := players room |-| {|playerId|},
              host := (if playerId = host room then hd (Object_keys (players room |-| {|playerId|})) else host room),
              notifications := (\<lambda>q. if q |\<in>| players room |-| {|playerId|}
                                then notifications room q @ [Player_left playerId]
                                else notifications room q)\<rparr>"
  have "leaveRoom roomId playerId db = (Inr Left_room, fmupd roomId ?room' db)"
    by (rule leaveRoom_remaining [OF assms(1) rest])
  moreover have "players ?room' = players room"
    by (simp add: same)
  moreover have "host ?room' = host room"
    using assms(4) by simp
  moreover have "\<forall>q. q |\<in>| players room \<longrightarrow> notifications ?room' q = notifications room q @ [Player_left playerId]"
    by (simp add: same)
  moreover have "\<forall>q. q |\<notin>| players room \<longrightarrow> notifications ?room' q = notifications room q"
    by (simp add: same)
  ultimately show ?thesis by blast
qed

lemma leaveRoom_closed:
  fixes db :: "('r, 'p::linorder, 'd) db"
  assumes "fmlookup db roomId = Some room"
    and "players room |-| {|playerId|} = {||}"
  shows "leaveRoom roomId playerId db = (Inr Room_closed, fmdrop roomId db)"
proof -
  have "fmdrop roomId (fmupd roomId x db) = fmdrop roomId db" for x
    by (rule fmap_ext) simp
  then show ?thesis
    using assms by (simp add: leaveRoom_def get_room_present update_room_present Let_def)
qed

section \<open>The claims\<close>

text \<open>
  C1, as stated, fails: \<^verbatim>\<open>pollNotifications\<close> never reads the room node. It reads
  the mailbox path, takes \<^verbatim>\<open>{}\<close> for an absent one and answers with the empty list.
  On the empty store a poll for room \<^verbatim>\<open>R1\<close> succeeds instead of failing with
  NotFound.
\<close>

theorem poll_absent_room_counterexample:
  "fmlookup (fmempty :: (string, string, string) db) ''R1'' = None
   \<and> webRTCSignaling 0 int (act_poll_notifications ''R1'' ''p1'') (fmempty :: (string, string, string) db)
       = Responds (Inr (Notifications []), fmempty)
   \<and> webRTCSignaling 0 int (act_poll_notifications ''R1'' ''p1'') (fmempty :: (string, string, string) db)
       \<noteq> Responds (Inl NotFound, fmempty)"
  by (simp add: on_poll_notifications_def valid_key_def key_text_def forbidden_char_def
        pollNotifications_def read_notifications_def update_room_def)

text \<open>
  C1, amended: when the room id is a key of the store and no room is stored under it, the
  actions \<^verbatim>\<open>join_room\<close>, \<^verbatim>\<open>leave_room\<close>, \<^verbatim>\<open>offer\<close>, \<^verbatim>\<open>answer\<close> and
  \<^verbatim>\<open>ice_candidates\<close> fail with NotFound and leave the store as it was, whatever
  their other fields; \<^verbatim>\<open>poll_notifications\<close>, for a player id that is a key, does not
  fail: it returns the empty list of notifications, and it too leaves the store as it was.
  (A room id that is no key is left out: see the counterexample to C5.)
\<close>

theorem absent_room_outcomes:
  fixes db :: "(string, string, 'd) db"
  assumes "valid_key roomId"
    and "fmlookup db roomId = None"
  shows "webRTCSignaling now clock (act_join_room roomId playerId) db = Responds (Inl NotFound, db)
       \<and> webRTCSignaling now clock (act_leave_room roomId playerId) db = Responds (Inl NotFound, db)
       \<and> webRTCSignaling now clock (act_offer roomId playerId targetId payload) db = Responds (Inl NotFound, db)
       \<and> webRTCSignaling now clock (act_answer roomId playerId targetId payload) db = Responds (Inl NotFound, db)
       \<and> webRTCSignaling now clock (act_ice_candidates roomId playerId targetId candidates) db
            = Responds (Inl NotFound, db)
       \<and> (valid_key playerId \<longrightarrow>
            webRTCSignaling now clock (act_poll_notifications roomId playerId) db
              = Responds (Inr (Notifications []), db))"
  using assms
  by (simp add: on_join_room_def on_leave_room_def on_offer_def on_answer_def on_ice_candidates_def
        on_poll_notifications_def room_ref_key pollNotifications_def read_notifications_def
        update_room_absent)

theorem absent_room_outcomes_witness:
  "valid_key ''R1'' \<and> valid_key ''p1''
   \<and> fmlookup (fmempty :: (string, string, string) db) ''R1'' = None
   \<and> webRTCSignaling 0 int (act_join_room ''R1'' ''p1'') (fmempty :: (string, string, string) db)
        = Responds (Inl NotFound, fmempty)
   \<and> webRTCSignaling 0 int (act_leave_room ''R1'' ''p1'') (fmempty :: (string, string, string) db)
        = Responds (Inl NotFound, fmempty)
   \<and> webRTCSignaling 0 int (act_offer ''R1'' ''p1'' ''p2'' ''sdp'') (fmempty :: (string, string, string) db)
        = Responds (Inl NotFound, fmempty)
   \<and> webRTCSignaling 0 int (act_answer ''R1'' ''p1'' ''p2'' ''sdp'') (fmempty :: (string, string, string) db)
        = Responds (Inl NotFound, fmempty)
   \<and> webRTCSignaling 0 int (act_ice_candidates ''R1'' ''p1'' ''p2'' [''c0'', ''c1''])
        (fmempty :: (string, string, string) db)
        = Responds (Inl NotFound, fmempty)
   \<and> webRTCSignaling 0 int (act_poll_notifications ''R1'' ''p1'') (fmempty :: (string, string, string) db)
        = Responds (Inr (Notifications []), fmempty)"
proof -
  have k: "valid_key ''R1''" by (simp add: valid_key_def key_text_def forbidden_char_def)
  have p: "valid_key ''p1''" by (simp add: valid_key_def key_text_def forbidden_char_def)
  have h: "fmlookup (fmempty :: (string, string, string) db) ''R1'' = None" by simp
  note all = absent_room_outcomes [OF k h, of 0 int "''p1''" "''p2''" "''sdp''" "[''c0'', ''c1'']"]
  show ?thesis
    by (rule conjI [OF k conjI [OF p conjI [OF h
          conjI [OF all [THEN conjunct1]
          conjI [OF all [THEN conjunct2, THEN conjunct1]
          conjI [OF all [THEN conjunct2, THEN conjunct2, THEN conjunct1]
          conjI [OF all [THEN conjunct2, THEN conjunct2, THEN conjunct2, THEN conjunct1]
          conjI [OF all [THEN conjunct2, THEN conjunct2, THEN conjunct2, THEN conjunct2, THEN conjunct1]
                    all [THEN conjunct2, THEN conjunct2, THEN conjunct2, THEN conjunct2, THEN conjunct2,
                         THEN mp, OF p]]]]]]]]])
qed

text \<open>
  C2: when players remain after the departing player is removed, \<^verbatim>\<open>leaveRoom\<close>
  answers \<^verbatim>\<open>Left room\<close> and rewrites the one room node. Its player set is the old one
  without the departing player. If the departing player was the host, the host field (one
  value) now holds a member of that remaining set, so a player other than the departing
  one; otherwise the host is kept. Every remaining player, the new host included, has
  exactly one \<^verbatim>\<open>player_left\<close> notification with the departing player's id appended to
  its mailbox, and no other mailbox changes.
\<close>

theorem leaveRoom_host_failover:
  fixes db :: "('r, 'p::linorder, 'd) db"
  assumes "fmlookup db roomId = Some room"
    and "players room |-| {|playerId|} \<noteq> {||}"
  shows "\<exists>room'.
           leaveRoom roomId playerId db = (Inr Left_room, fmupd roomId room' db)
         \<and> players room' = players room |-| {|playerId|}
         \<and> (host room = playerId \<longrightarrow> host room' |\<in>| players room' \<and> host room' \<noteq> playerId)
         \<and> (host room \<noteq> playerId \<longrightarrow> host room' = host room)
         \<and> (\<forall>q. q |\<in>| players room' \<longrightarrow> notifications room' q = notifications room q @ [Player_left playerId])
         \<and> (\<forall>q. q |\<notin>| players room' \<longrightarrow> notifications room' q = notifications room q)"
proof -
  let ?ps = "players room |-| {|playerId|}"
  have "hd (Object_keys ?ps) |\<in>| ?ps"
    using assms(2) by (rule Object_keys_hd)
  then show ?thesis
    unfolding leaveRoom_remaining [OF assms] by (intro exI conjI refl) auto
qed

theorem leaveRoom_host_failover_witness:
  "fmlookup (fmupd ''R1'' ((new_room ''host1'' 0 :: (string, string) room)\<lparr>players := {|''host1'', ''p2''|}\<rparr>) fmempty) ''R1''
     = Some ((new_room ''host1'' 0)\<lparr>players := {|''host1'', ''p2''|}\<rparr>)
   \<and> players ((new_room ''host1'' 0 :: (string, string) room)\<lparr>players := {|''host1'', ''p2''|}\<rparr>) |-| {|''host1''|} \<noteq> {||}
   \<and> (\<exists>room'.
         leaveRoom ''R1'' ''host1''
           (fmupd ''R1'' ((new_room ''host1'' 0 :: (string, string) room)\<lparr>players := {|''host1'', ''p2''|}\<rparr>) fmempty)
         = (Inr Left_room, fmupd ''R1'' room' fmempty)
       \<and> players room' = {|''p2''|}
       \<and> host room' = ''p2''
       \<and> notifications room' ''p2'' = [Player_left ''host1''])"
proof -
  let ?room = "(new_room ''host1'' 0 :: (string, string) room)\<lparr>players := {|''host1'', ''p2''|}\<rparr>"
  let ?db = "fmupd ''R1'' ?room (fmempty :: (string, string, string) db)"
  have h1: "fmlookup ?db ''R1'' = Some ?room" by simp
  have ps: "players ?room |-| {|''host1''|} = {|''p2''|}" by auto
  have h2: "players ?room |-| {|''host1''|} \<noteq> {||}" by (simp add: ps)
  obtain room' where r: "leaveRoom ''R1'' ''host1'' ?db = (Inr Left_room, fmupd ''R1'' room' ?db)"
      "players room' = players ?room |-| {|''host1''|}"
      "host ?room = ''host1'' \<longrightarrow> host room' |\<in>| players room' \<and> host room' \<noteq> ''host1''"
      "\<forall>q. q |\<in>| players room' \<longrightarrow> notifications room' q = notifications ?room q @ [Player_left ''host1'']"
    using leaveRoom_host_failover [OF h1 h2] by blast
  have "host room' = ''p2''" using r(2,3) by (simp add: ps new_room_def)
  moreover have "notifications room' ''p2'' = [Player_left ''host1'']"
    using r(2,4) by (simp add: ps new_room_def)
  moreover have "players room' = {|''p2''|}" using r(2) by (simp add: ps)
  moreover have "leaveRoom ''R1'' ''host1'' ?db = (Inr Left_room, fmupd ''R1'' room' fmempty)"
    using r(1) by simp
  ultimately show ?thesis using h1 h2 by blast
qed





text \<open>
  C5, as stated, fails for a room id that is no key. With a room under \<^verbatim>\<open>R1\<close>, the
  text \<^verbatim>\<open>R1/players\<close> is the id of no room, but \<^verbatim>\<open>rooms/R1/players\<close> is the node
  of that room's players: \<^verbatim>\<open>joinRoom\<close> finds it, passes its check and goes on to write
  below it, instead of failing with NotFound.
\<close>

theorem join_room_path_counterexample:
  "fmlookup (fmupd ''R1'' (new_room ''host1'' 0 :: (string, string) room) fmempty) ''R1/players'' = None
   \<and> on_join_room ''R1/players'' ''p9'' (fmupd ''R1'' (new_room ''host1'' 0 :: (string, string) room) fmempty)
       = Goes_on
   \<and> on_join_room ''R1/players'' ''p9'' (fmupd ''R1'' (new_room ''host1'' 0 :: (string, string) room) fmempty)
       \<noteq> Responds (Inl NotFound, fmupd ''R1'' (new_room ''host1'' 0) fmempty)"
  by (simp add: on_join_room_def room_ref_def players_path_def valid_key_def key_text_def
        forbidden_char_def new_room_def)

text \<open>
  C5, amended: for a room id that is a key of the store, \<^verbatim>\<open>join_room\<close> fails with
  NotFound when no room is stored under it and with RoomFull when the room has
  \<^verbatim>\<open>MAX_PLAYERS\<close> = 8 members (or more), the store unchanged in both cases. On a room
  of fewer members, for a player id that is a key, it adds the player to the player set,
  returns the host id read from the room, keeps the host, and appends exactly one
  \<^verbatim>\<open>new_player\<close> notification with the player's id to the host's mailbox and to no
  other.
\<close>

theorem join_room_outcomes:
  fixes db :: "(string, string, 'd) db"
  assumes "valid_key roomId"
  shows "(fmlookup db roomId = None \<longrightarrow> on_join_room roomId playerId db = Responds (Inl NotFound, db))
       \<and> (\<forall>room. fmlookup db roomId = Some room \<and> 8 \<le> fcard (players room) \<longrightarrow>
             on_join_room roomId playerId db = Responds (Inl RoomFull, db))
       \<and> (\<forall>room. fmlookup db roomId = Some room \<and> fcard (players room) < 8 \<and> valid_key playerId \<longrightarrow>
             (\<exists>room'.
                 on_join_room roomId playerId db
                   = Responds (Inr (Joined_room (host room) roomId), fmupd roomId room' db)
               \<and> players room' = finsert playerId (players room)
               \<and> host room' = host room
               \<and> notifications room' (host room) = notifications room (host room) @ [New_player playerId]
               \<and> (\<forall>q. q \<noteq> host room \<longrightarrow> notifications room' q = notifications room q)))"
proof (intro conjI allI impI)
  assume "fmlookup db roomId = None"
  then show "on_join_room roomId playerId db = Responds (Inl NotFound, db)"
    using assms by (simp add: on_join_room_def room_ref_key)
next
  fix room assume "fmlookup db roomId = Some room \<and> 8 \<le> fcard (players room)"
  then show "on_join_room roomId playerId db = Responds (Inl RoomFull, db)"
    using assms by (simp add: on_join_room_def room_ref_key MAX_PLAYERS_def)
next
  fix room
  assume a: "fmlookup db roomId = Some room \<and> fcard (players room) < 8 \<and> valid_key playerId"
  let ?room' = "room\<lparr>players := finsert playerId (players room),
              notifications := (notifications room)
                 (host room := notifications room (host room) @ [New_player playerId])\<rparr>"
  have "joinRoom roomId playerId db = (Inr (Joined_room (host room) roomId), fmupd roomId ?room' db)"
    using a by (intro joinRoom_success) (simp_all add: MAX_PLAYERS_def)
  then have "on_join_room roomId playerId db
      = Responds (Inr (Joined_room (host room) roomId), fmupd roomId ?room' db)"
    using a assms by (simp add: on_join_room_keys)
  moreover have "players ?room' = finsert playerId (players room)" by simp
  moreover have "host ?room' = host room" by simp
  moreover have "notifications ?room' (host room) = notifications room (host room) @ [New_player playerId]"
    by simp
  moreover have "\<forall>q. q \<noteq> host room \<longrightarrow> notifications ?room' q = notifications room q" by simp
  ultimately show "\<exists>room'.
                 on_join_room roomId playerId db
                   = Responds (Inr (Joined_room (host room) roomId), fmupd roomId room' db)
               \<and> players room' = finsert playerId (players room)
               \<and> host room' = host room
               \<and> notifications room' (host room) = notifications room (host room) @ [New_player playerId]
               \<and> (\<forall>q. q \<noteq> host room \<longrightarrow> notifications room' q = notifications room q)"
    by blast
qed

theorem join_room_outcomes_witness:
  "valid_key ''R1'' \<and> valid_key ''p2''
   \<and> on_join_room ''R1'' ''p2'' (fmempty :: (string, string, string) db) = Responds (Inl NotFound, fmempty)
   \<and> fcard {|''host1'', ''p2'', ''p3'', ''p4'', ''p5'', ''p6'', ''p7'', ''p8''|} = 8
   \<and> on_join_room ''R1'' ''p9''
        (fmupd ''R1'' ((new_room ''host1'' 0 :: (string, string) room)
           \<lparr>players := {|''host1'', ''p2'', ''p3'', ''p4'', ''p5'', ''p6'', ''p7'', ''p8''|}\<rparr>) fmempty)
      = Responds (Inl RoomFull,
         fmupd ''R1'' ((new_room ''host1'' 0)
           \<lparr>players := {|''host1'', ''p2'', ''p3'', ''p4'', ''p5'', ''p6'', ''p7'', ''p8''|}\<rparr>) fmempty)
   \<and> (\<exists>room'.
         on_join_room ''R1'' ''p2'' (fmupd ''R1'' (new_room ''host1'' 0 :: (string, string) room) fmempty)
           = Responds (Inr (Joined_room ''host1'' ''R1''), fmupd ''R1'' room' fmempty)
       \<and> players room' = {|''host1'', ''p2''|}
       \<and> host room' = ''host1''
       \<and> notifications room' ''host1'' = [New_player ''p2'']
       \<and> notifications room' ''p2'' = [])"
proof -
  let ?full = "(new_room ''host1'' 0 :: (string, string) room)
           \<lparr>players := {|''host1'', ''p2'', ''p3'', ''p4'', ''p5'', ''p6'', ''p7'', ''p8''|}\<rparr>"
  let ?dbf = "fmupd ''R1'' ?full (fmempty :: (string, string, string) db)"
  let ?one = "new_room ''host1'' 0 :: (string, string) room"
  let ?db1 = "fmupd ''R1'' ?one (fmempty :: (string, string, string) db)"
  have k: "valid_key ''R1''" by (simp add: valid_key_def key_text_def forbidden_char_def)
  have p: "valid_key ''p2''" by (simp add: valid_key_def key_text_def forbidden_char_def)
  have a: "fmlookup (fmempty :: (string, string, string) db) ''R1'' = None" by simp
  have c8: "fcard {|''host1'', ''p2'', ''p3'', ''p4'', ''p5'', ''p6'', ''p7'', ''p8''|} = 8"
    by (simp add: fcard_finsert_if)
  have b: "fmlookup ?dbf ''R1'' = Some ?full \<and> 8 \<le> fcard (players ?full)"
    by (simp add: c8)
  have c: "fmlookup ?db1 ''R1'' = Some ?one \<and> fcard (players ?one) < 8 \<and> valid_key ''p2''"
    using p by (simp add: new_room_def fcard_finsert_if fcard_fempty)
  have absent: "on_join_room ''R1'' ''p2'' (fmempty :: (string, string, string) db) = Responds (Inl NotFound, fmempty)"
    by (rule join_room_outcomes [OF k, THEN conjunct1, rule_format, OF a])
  have full: "on_join_room ''R1'' ''p9'' ?dbf = Responds (Inl RoomFull, ?dbf)"
    by (rule join_room_outcomes [OF k, THEN conjunct2, THEN conjunct1, rule_format, OF b])
  have joined: "\<exists>room'.
         on_join_room ''R1'' ''p2'' ?db1 = Responds (Inr (Joined_room ''host1'' ''R1''), fmupd ''R1'' room' fmempty)
       \<and> players room' = {|''host1'', ''p2''|}
       \<and> host room' = ''host1''
       \<and> notifications room' ''host1'' = [New_player ''p2'']
       \<and> notifications room' ''p2'' = []"
  proof -
    from join_room_outcomes [OF k, THEN conjunct2, THEN conjunct2, rule_format, OF c]
    obtain room' where r:
        "on_join_room ''R1'' ''p2'' ?db1
           = Responds (Inr (Joined_room (host ?one) ''R1''), fmupd ''R1'' room' ?db1)
         \<and> players room' = finsert ''p2'' (players ?one)
         \<and> host room' = host ?one
         \<and> notifications room' (host ?one) = notifications ?one (host ?one) @ [New_player ''p2'']
         \<and> (\<forall>q. q \<noteq> host ?one \<longrightarrow> notifications room' q = notifications ?one q)" ..
    have r1: "on_join_room ''R1'' ''p2'' ?db1 = Responds (Inr (Joined_room ''host1'' ''R1''), fmupd ''R1'' room' fmempty)"
      using r [THEN conjunct1] by (simp add: new_room_def)
    have r2: "players room' = {|''host1'', ''p2''|}"
      using r [THEN conjunct2, THEN conjunct1] by (auto simp: new_room_def)
    have r3: "host room' = ''host1''"
      using r [THEN conjunct2, THEN conjunct2, THEN conjunct1] by (simp add: new_room_def)
    have r4: "notifications room' ''host1'' = [New_player ''p2'']"
      using r [THEN conjunct2, THEN conjunct2, THEN conjunct2, THEN conjunct1] by (simp add: new_room_def)
    have r5: "notifications room' ''p2'' = []"
      using r [THEN conjunct2, THEN conjunct2, THEN conjunct2, THEN conjunct2] by (simp add: new_room_def)
    show ?thesis
      by (rule exI [of _ room']) (rule conjI [OF r1 conjI [OF r2 conjI [OF r3 conjI [OF r4 r5]]]])
  qed
  show ?thesis
    by (rule conjI [OF k conjI [OF p conjI [OF absent conjI [OF c8 conjI [OF full joined]]]]])
qed

text \<open>
  C6, as stated, fails for a room id that is no key. With a room under \<^verbatim>\<open>R1\<close>, no
  room has the id \<^verbatim>\<open>R1/players\<close>, yet \<^verbatim>\<open>createRoom\<close> finds the players node of
  \<^verbatim>\<open>R1\<close> at \<^verbatim>\<open>rooms/R1/players\<close> and rejects the request with AlreadyExists.
\<close>

theorem create_room_path_counterexample:
  "fmlookup (fmupd ''R1'' (new_room ''host1'' 0 :: (string, string) room) fmempty) ''R1/players'' = None
   \<and> on_create_room 5 ''R1/players'' ''p9'' (fmupd ''R1'' (new_room ''host1'' 0 :: (string, string) room) fmempty)
       = Responds (Inl AlreadyExists, fmupd ''R1'' (new_room ''host1'' 0) fmempty)"
  by (simp add: on_create_room_def room_ref_def players_path_def valid_key_def key_text_def
        forbidden_char_def new_room_def)

text \<open>
  C6, amended: for a room id that is a key of the store, \<^verbatim>\<open>create_room\<close> fails with
  AlreadyExists if and only if a room is stored under the id, and then leaves the store as
  it was. Whenever it succeeds, a read of the room afterwards finds it, with the given
  host, the singleton player set of that host and the creation time; and it does succeed
  when no room is stored under the id and the host id is a key.
\<close>

theorem create_room_outcomes:
  fixes db :: "(string, string, 'd) db"
  assumes "valid_key roomId"
  shows "(fmlookup db roomId \<noteq> None \<longrightarrow>
            on_create_room now roomId hostId db = Responds (Inl AlreadyExists, db))
       \<and> (fmlookup db roomId = None \<longrightarrow>
            (\<forall>db'. on_create_room now roomId hostId db \<noteq> Responds (Inl AlreadyExists, db')))
       \<and> (\<forall>db'. on_create_room now roomId hostId db = Responds (Inr (Room_created roomId), db') \<longrightarrow>
            (\<exists>room. get_room roomId db' = Inr room
                 \<and> host room = hostId \<and> players room = {|hostId|} \<and> createdAt room = now))
       \<and> (fmlookup db roomId = None \<and> valid_key hostId \<longrightarrow>
            (\<exists>db'. on_create_room now roomId hostId db = Responds (Inr (Room_created roomId), db')))"
  using assms
  by (cases "fmlookup db roomId")
     (auto simp: on_create_room_def room_ref_key createRoom_def get_room_def new_room_def
        valid_key_text split: if_splits)

theorem create_room_outcomes_witness:
  "valid_key ''R1'' \<and> valid_key ''host1''
   \<and> fmlookup (fmempty :: (string, string, string) db) ''R1'' = None
   \<and> (\<exists>db'. on_create_room 5 ''R1'' ''host1'' (fmempty :: (string, string, string) db)
               = Responds (Inr (Room_created ''R1''), db')
           \<and> (\<exists>room. get_room ''R1'' db' = Inr room
                 \<and> host room = ''host1'' \<and> players room = {|''host1''|} \<and> createdAt room = 5))
   \<and> fmlookup (fmupd ''R1'' (new_room ''host1'' 5 :: (string, string) room) fmempty) ''R1'' \<noteq> None
   \<and> on_create_room 9 ''R1'' ''p2'' (fmupd ''R1'' (new_room ''host1'' 5 :: (string, string) room) fmempty)
       = Responds (Inl AlreadyExists, fmupd ''R1'' (new_room ''host1'' 5) fmempty)"
proof -
  let ?db = "fmupd ''R1'' (new_room ''host1'' 5 :: (string, string) room) (fmempty :: (string, string, string) db)"
  have k: "valid_key ''R1''" by (simp add: valid_key_def key_text_def forbidden_char_def)
  have h: "valid_key ''host1''" by (simp add: valid_key_def key_text_def forbidden_char_def)
  have a: "fmlookup (fmempty :: (string, string, string) db) ''R1'' = None" by simp
  have b: "fmlookup ?db ''R1'' \<noteq> None" by simp
  note fresh = create_room_outcomes [OF k, of "fmempty :: (string, string, string) db" 5 "''host1''"]
  note taken = create_room_outcomes [OF k, of ?db 9 "''p2''"]
  from fresh [THEN conjunct2, THEN conjunct2, THEN conjunct2, rule_format, OF conjI [OF a h]]
  obtain db' where created:
      "on_create_room 5 ''R1'' ''host1'' (fmempty :: (string, string, string) db)
         = Responds (Inr (Room_created ''R1''), db')" ..
  have roundtrip: "\<exists>room. get_room ''R1'' db' = Inr room
                 \<and> host room = ''host1'' \<and> players room = {|''host1''|} \<and> createdAt room = 5"
    by (rule fresh [THEN conjunct2, THEN conjunct2, THEN conjunct1, rule_format, OF created])
  have made: "\<exists>db'. on_create_room 5 ''R1'' ''host1'' (fmempty :: (string, string, string) db)
               = Responds (Inr (Room_created ''R1''), db')
           \<and> (\<exists>room. get_room ''R1'' db' = Inr room
                 \<and> host room = ''host1'' \<and> players room = {|''host1''|} \<and> createdAt room = 5)"
    by (rule exI [of _ db']) (rule conjI [OF created roundtrip])
  have rejected: "on_create_room 9 ''R1'' ''p2'' ?db = Responds (Inl AlreadyExists, ?db)"
    by (rule taken [THEN conjunct1, rule_format, OF b])
  show ?thesis
    by (rule conjI [OF k conjI [OF h conjI [OF a conjI [OF made conjI [OF b rejected]]]]])
qed

text \<open>
  C7: when the player set of a room is exactly the departing player, \<^verbatim>\<open>leaveRoom\<close>
  answers \<^verbatim>\<open>Room closed\<close> and the store it leaves is the old one without the room:
  a read of the room afterwards fails with NotFound, and every other room, with its
  mailboxes, is as before, so nothing was pushed to anyone.
\<close>

theorem leaveRoom_last_player:
  fixes db :: "('r, 'p::linorder, 'd) db"
  assumes "fmlookup db roomId = Some room"
    and "players room = {|playerId|}"
  shows "leaveRoom roomId playerId db = (Inr Room_closed, fmdrop roomId db)
       \<and> get_room roomId (snd (leaveRoom roomId playerId db)) = Inl NotFound
       \<and> (\<forall>other. other \<noteq> roomId \<longrightarrow>
             fmlookup (snd (leaveRoom roomId playerId db)) other = fmlookup db other)"
proof -
  have "leaveRoom roomId playerId db = (Inr Room_closed, fmdrop roomId db)"
    using assms
    by (simp add: leaveRoom_def get_room_present update_room_present Let_def)
       (rule fmap_ext, simp)
  then show ?thesis by (simp add: get_room_def)
qed

theorem leaveRoom_last_player_witness:
  "fmlookup (fmupd ''R1'' (new_room ''host1'' 0 :: (string, string) room) fmempty) ''R1'' = Some (new_room ''host1'' 0)
   \<and> players (new_room ''host1'' 0 :: (string, string) room) = {|''host1''|}
   \<and> leaveRoom ''R1'' ''host1'' (fmupd ''R1'' (new_room ''host1'' 0 :: (string, string) room) fmempty)
       = (Inr Room_closed, fmempty)"
proof -
  let ?room = "new_room ''host1'' 0 :: (string, string) room"
  let ?db = "fmupd ''R1'' ?room (fmempty :: (string, string, string) db)"
  have h1: "fmlookup ?db ''R1'' = Some ?room" by simp
  have h2: "players ?room = {|''host1''|}" by (simp add: new_room_def)
  have "fmdrop ''R1'' ?db = fmempty" by (rule fmap_ext) simp
  then have "leaveRoom ''R1'' ''host1'' ?db = (Inr Room_closed, fmempty)"
    using leaveRoom_last_player [OF h1 h2] by simp
  then show ?thesis using h1 h2 by blast
qed

text \<open>
  C8: after the sweep at time \<open>now\<close> a room id holds nothing if its room was created
  before \<open>now - 24 * 60 * 60 * 1000\<close>, and otherwise holds exactly what it held before
  (mailboxes included). So the sweep deletes exactly the rooms older than the cutoff and
  pushes no notification.
\<close>

theorem cleanupInactiveRooms_sweep:
  fixes db :: "('r::linorder, 'p, 'd) db"
  shows "fmlookup (cleanupInactiveRooms now db) roomId =
     (case fmlookup db roomId of
        None \<Rightarrow> None
      | Some room \<Rightarrow> if createdAt room < now - 24 * 60 * 60 * 1000 then None else Some room)"
  by (auto simp: cleanupInactiveRooms_def Let_def cleanup_fold_lookup ROOM_TIMEOUT_def
        fmlookup_dom_iff split: option.splits)

theorem cleanupInactiveRooms_sweep_witness:
  "fmlookup (cleanupInactiveRooms 360000000
       (fmupd ''R1'' (new_room ''host1'' (360000000 - 25 * 3600000) :: (string, string) room)
         (fmupd ''R2'' (new_room ''host2'' (360000000 - 1 * 3600000)) fmempty))) ''R1'' = None
   \<and> fmlookup (cleanupInactiveRooms 360000000
       (fmupd ''R1'' (new_room ''host1'' (360000000 - 25 * 3600000) :: (string, string) room)
         (fmupd ''R2'' (new_room ''host2'' (360000000 - 1 * 3600000)) fmempty))) ''R2''
       = Some (new_room ''host2'' (360000000 - 1 * 3600000))"
proof -
  let ?db = "fmupd ''R1'' (new_room ''host1'' (360000000 - 25 * 3600000) :: (string, string) room)
         (fmupd ''R2'' (new_room ''host2'' (360000000 - 1 * 3600000)) (fmempty :: (string, string, string) db))"
  show ?thesis
    using cleanupInactiveRooms_sweep [of 360000000 ?db "''R1''"]
          cleanupInactiveRooms_sweep [of 360000000 ?db "''R2''"]
    by (simp add: new_room_def)
qed

text \<open>
  C9, as stated, fails on two rooms that the store can hold. \<^verbatim>\<open>leaveRoom\<close> never asks
  whether the leaver is a member: it closes the room whenever no player remains, and it
  replaces the host whenever the leaver is the recorded host. In a room with a host and no
  players, the leave of any player answers \<^verbatim>\<open>Room closed\<close> and deletes the room. In a
  room whose recorded host \<^verbatim>\<open>host1\<close> is not among its players, the leave of
  \<^verbatim>\<open>host1\<close>, who is not a member, makes \<^verbatim>\<open>p2\<close> the host.
\<close>

theorem leave_non_member_counterexample:
  "''p3'' |\<notin>| players ((new_room ''host1'' 0 :: (string, string) room)\<lparr>players := {||}\<rparr>)
   \<and> on_leave_room ''R1'' ''p3''
        (fmupd ''R1'' ((new_room ''host1'' 0 :: (string, string) room)\<lparr>players := {||}\<rparr>) fmempty)
       = Responds (Inr Room_closed, fmempty)
   \<and> ''host1'' |\<notin>| players ((new_room ''host1'' 0 :: (string, string) room)\<lparr>players := {|''p2''|}\<rparr>)
   \<and> host ((new_room ''host1'' 0 :: (string, string) room)\<lparr>players := {|''p2''|}\<rparr>) = ''host1''
   \<and> on_leave_room ''R1'' ''host1''
        (fmupd ''R1'' ((new_room ''host1'' 0 :: (string, string) room)\<lparr>players := {|''p2''|}\<rparr>) fmempty)
       = Responds (leaveRoom ''R1'' ''host1''
           (fmupd ''R1'' ((new_room ''host1'' 0 :: (string, string) room)\<lparr>players := {|''p2''|}\<rparr>) fmempty))
   \<and> fst (leaveRoom ''R1'' ''host1''
        (fmupd ''R1'' ((new_room ''host1'' 0 :: (string, string) room)\<lparr>players := {|''p2''|}\<rparr>) fmempty))
       = Inr Left_room
   \<and> map_option host (fmlookup (snd (leaveRoom ''R1'' ''host1''
        (fmupd ''R1'' ((new_room ''host1'' 0 :: (string, string) room)\<lparr>players := {|''p2''|}\<rparr>) fmempty))) ''R1'')
       = Some ''p2''"
proof -
  let ?empty = "(new_room ''host1'' 0 :: (string, string) room)\<lparr>players := {||}\<rparr>"
  let ?dbA = "fmupd ''R1'' ?empty (fmempty :: (string, string, string) db)"
  let ?other = "(new_room ''host1'' 0 :: (string, string) room)\<lparr>players := {|''p2''|}\<rparr>"
  let ?dbB = "fmupd ''R1'' ?other (fmempty :: (string, string, string) db)"
  have k: "valid_key ''R1''" by (simp add: valid_key_def key_text_def forbidden_char_def)
  have p3: "valid_key ''p3''" by (simp add: valid_key_def key_text_def forbidden_char_def)
  have h1: "valid_key ''host1''" by (simp add: valid_key_def key_text_def forbidden_char_def)
  have a1: "''p3'' |\<notin>| players ?empty" by simp
  have lookA: "fmlookup ?dbA ''R1'' = Some ?empty" by simp
  have restA: "players ?empty |-| {|''p3''|} = {||}" by simp
  have dropA: "fmdrop ''R1'' ?dbA = fmempty" by (rule fmap_ext) simp
  have a2: "on_leave_room ''R1'' ''p3'' ?dbA = Responds (Inr Room_closed, fmempty)"
    by (simp only: on_leave_room_keys [OF k p3] leaveRoom_closed [OF lookA restA] dropA)
  have b1: "''host1'' |\<notin>| players ?other" by simp
  have b2: "host ?other = ''host1''" by (simp add: new_room_def)
  have b3: "on_leave_room ''R1'' ''host1'' ?dbB = Responds (leaveRoom ''R1'' ''host1'' ?dbB)"
    by (rule on_leave_room_keys [OF k h1])
  have lookB: "fmlookup ?dbB ''R1'' = Some ?other" by simp
  have same: "players ?other |-| {|''host1''|} = {|''p2''|}" by auto
  have restB: "players ?other |-| {|''host1''|} \<noteq> {||}" by (simp add: same)
  have "hd (Object_keys {|''p2''|}) |\<in>| {|''p2''|}" by (rule Object_keys_hd) simp
  then have pick: "hd (Object_keys {|''p2''|}) = ''p2''" by simp
  note left = leaveRoom_remaining [OF lookB restB]
  have same': "{|''p2''|} |-| {|''host1''|} = {|''p2''|}" by auto
  have b4: "fst (leaveRoom ''R1'' ''host1'' ?dbB) = Inr Left_room"
    unfolding left by simp
  have b5: "map_option host (fmlookup (snd (leaveRoom ''R1'' ''host1'' ?dbB)) ''R1'') = Some ''p2''"
    unfolding left by (simp add: same' pick new_room_def)
  show ?thesis
    by (rule conjI [OF a1 conjI [OF a2 conjI [OF b1 conjI [OF b2 conjI [OF b3 conjI [OF b4 b5]]]]]])
qed

text \<open>
  C9, amended: in a room that has players, a leave by a player who is not a member and is
  not the room's recorded host (room id and player id being keys of the store) answers
  \<^verbatim>\<open>Left room\<close>, keeps the player set and the host, and still appends a
  \<^verbatim>\<open>player_left\<close> notification with that player's id to the mailbox of every member,
  and to no other mailbox.
\<close>

theorem leave_room_non_member:
  fixes db :: "(string, string, 'd) db"
  assumes "valid_key roomId"
    and "valid_key playerId"
    and "fmlookup db roomId = Some room"
    and "playerId |\<notin>| players room"
    and "players room \<noteq> {||}"
    and "playerId \<noteq> host room"
  shows "\<exists>room'.
           on_leave_room roomId playerId db = Responds (Inr Left_room, fmupd roomId room' db)
         \<and> players room' = players room
         \<and> host room' = host room
         \<and> (\<forall>q. q |\<in>| players room \<longrightarrow> notifications room' q = notifications room q @ [Player_left playerId])
         \<and> (\<forall>q. q |\<notin>| players room \<longrightarrow> notifications room' q = notifications room q)"
  using leaveRoom_outsider [OF assms(3-6)]
  by (simp add: on_leave_room_keys [OF assms(1,2)])

theorem leave_room_non_member_witness:
  "valid_key ''R1'' \<and> valid_key ''p3''
   \<and> fmlookup (fmupd ''R1'' ((new_room ''host1'' 0 :: (string, string) room)\<lparr>players := {|''host1'', ''p2''|}\<rparr>) fmempty) ''R1''
     = Some ((new_room ''host1'' 0)\<lparr>players := {|''host1'', ''p2''|}\<rparr>)
   \<and> ''p3'' |\<notin>| players ((new_room ''host1'' 0 :: (string, string) room)\<lparr>players := {|''host1'', ''p2''|}\<rparr>)
   \<and> players ((new_room ''host1'' 0 :: (string, string) room)\<lparr>players := {|''host1'', ''p2''|}\<rparr>) \<noteq> {||}
   \<and> ''p3'' \<noteq> host ((new_room ''host1'' 0 :: (string, string) room)\<lparr>players := {|''host1'', ''p2''|}\<rparr>)
   \<and> (\<exists>room'.
         on_leave_room ''R1'' ''p3''
           (fmupd ''R1'' ((new_room ''host1'' 0 :: (string, string) room)\<lparr>players := {|''host1'', ''p2''|}\<rparr>) fmempty)
         = Responds (Inr Left_room, fmupd ''R1'' room' fmempty)
       \<and> players room' = {|''host1'', ''p2''|}
       \<and> host room' = ''host1''
       \<and> notifications room' ''host1'' = [Player_left ''p3'']
       \<and> notifications room' ''p2'' = [Player_left ''p3''])"
proof -
  let ?room = "(new_room ''host1'' 0 :: (string, string) room)\<lparr>players := {|''host1'', ''p2''|}\<rparr>"
  let ?db = "fmupd ''R1'' ?room (fmempty :: (string, string, string) db)"
  have k: "valid_key ''R1''" by (simp add: valid_key_def key_text_def forbidden_char_def)
  have p: "valid_key ''p3''" by (simp add: valid_key_def key_text_def forbidden_char_def)
  have h1: "fmlookup ?db ''R1'' = Some ?room" by simp
  have h2: "''p3'' |\<notin>| players ?room" by simp
  have h3: "players ?room \<noteq> {||}" by simp
  have h4: "''p3'' \<noteq> host ?room" by (simp add: new_room_def)
  from leave_room_non_member [OF k p h1 h2 h3 h4]
  obtain room' where r:
      "on_leave_room ''R1'' ''p3'' ?db = Responds (Inr Left_room, fmupd ''R1'' room' ?db)
       \<and> players room' = players ?room
       \<and> host room' = host ?room
       \<and> (\<forall>q. q |\<in>| players ?room \<longrightarrow> notifications room' q = notifications ?room q @ [Player_left ''p3''])
       \<and> (\<forall>q. q |\<notin>| players ?room \<longrightarrow> notifications room' q = notifications ?room q)" ..
  have r1: "on_leave_room ''R1'' ''p3'' ?db = Responds (Inr Left_room, fmupd ''R1'' room' fmempty)"
    using r [THEN conjunct1] by simp
  have r2: "players room' = {|''host1'', ''p2''|}"
    using r [THEN conjunct2, THEN conjunct1] by simp
  have r3: "host room' = ''host1''"
    using r [THEN conjunct2, THEN conjunct2, THEN conjunct1] by (simp add: new_room_def)
  have r4: "notifications room' ''host1'' = [Player_left ''p3'']"
    using r [THEN conjunct2, THEN conjunct2, THEN conjunct2, THEN conjunct1] by (simp add: new_room_def)
  have r5: "notifications room' ''p2'' = [Player_left ''p3'']"
    using r [THEN conjunct2, THEN conjunct2, THEN conjunct2, THEN conjunct1] by (simp add: new_room_def)
  have ex: "\<exists>room'.
         on_leave_room ''R1'' ''p3'' ?db = Responds (Inr Left_room, fmupd ''R1'' room' fmempty)
       \<and> players room' = {|''host1'', ''p2''|}
       \<and> host room' = ''host1''
       \<and> notifications room' ''host1'' = [Player_left ''p3'']
       \<and> notifications room' ''p2'' = [Player_left ''p3'']"
    by (rule exI [of _ room']) (rule conjI [OF r1 conjI [OF r2 conjI [OF r3 conjI [OF r4 r5]]]])
  show ?thesis
    by (rule conjI [OF k conjI [OF p conjI [OF h1 conjI [OF h2 conjI [OF h3 conjI [OF h4 ex]]]]]])
qed

text \<open>
  C10: a join of a player who is already in the player set fails with RoomFull when the
  room has 8 members, the player counted among them. With fewer members it succeeds,
  the player set and the host stay as they were, and one more \<^verbatim>\<open>new_player\<close>
  notification with the player's id is appended to the host's mailbox.
\<close>

theorem joinRoom_member_again:
  fixes db :: "('r, 'p, 'd) db"
  assumes "fmlookup db roomId = Some room"
    and "playerId |\<in>| players room"
  shows "(fcard (players room) = 8 \<longrightarrow> joinRoom roomId playerId db = (Inl RoomFull, db))
       \<and> (fcard (players room) < 8 \<longrightarrow>
             (\<exists>room'.
                 joinRoom roomId playerId db = (Inr (Joined_room (host room) roomId), fmupd roomId room' db)
               \<and> players room' = players room
               \<and> host room' = host room
               \<and> notifications room' (host room) = notifications room (host room) @ [New_player playerId]
               \<and> (\<forall>q. q \<noteq> host room \<longrightarrow> notifications room' q = notifications room q)))"
proof (intro conjI impI)
  assume "fcard (players room) = 8"
  then show "joinRoom roomId playerId db = (Inl RoomFull, db)"
    using assms(1) by (simp add: joinRoom_full MAX_PLAYERS_def)
next
  assume a: "fcard (players room) < 8"
  let ?room' = "room\<lparr>players := finsert playerId (players room),
              notifications := (notifications room)
                 (host room := notifications room (host room) @ [New_player playerId])\<rparr>"
  have same: "finsert playerId (players room) = players room"
    using assms(2) by auto
  have "joinRoom roomId playerId db = (Inr (Joined_room (host room) roomId), fmupd roomId ?room' db)"
    using a assms(1) by (intro joinRoom_success) (simp_all add: MAX_PLAYERS_def)
  moreover have "players ?room' = players room" by (simp add: same)
  moreover have "host ?room' = host room" by simp
  moreover have "notifications ?room' (host room) = notifications room (host room) @ [New_player playerId]"
    by simp
  moreover have "\<forall>q. q \<noteq> host room \<longrightarrow> notifications ?room' q = notifications room q" by simp
  ultimately show "\<exists>room'.
                 joinRoom roomId playerId db = (Inr (Joined_room (host room) roomId), fmupd roomId room' db)
               \<and> players room' = players room
               \<and> host room' = host room
               \<and> notifications room' (host room) = notifications room (host room) @ [New_player playerId]
               \<and> (\<forall>q. q \<noteq> host room \<longrightarrow> notifications room' q = notifications room q)"
    by blast
qed

theorem joinRoom_member_again_witness:
  "''p2'' |\<in>| {|''host1'', ''p2'', ''p3'', ''p4'', ''p5'', ''p6'', ''p7'', ''p8''|}
   \<and> fcard {|''host1'', ''p2'', ''p3'', ''p4'', ''p5'', ''p6'', ''p7'', ''p8''|} = 8
   \<and> joinRoom ''R1'' ''p2''
        (fmupd ''R1'' ((new_room ''host1'' 0 :: (string, string) room)
           \<lparr>players := {|''host1'', ''p2'', ''p3'', ''p4'', ''p5'', ''p6'', ''p7'', ''p8''|}\<rparr>) fmempty)
      = (Inl RoomFull,
         fmupd ''R1'' ((new_room ''host1'' 0)
           \<lparr>players := {|''host1'', ''p2'', ''p3'', ''p4'', ''p5'', ''p6'', ''p7'', ''p8''|}\<rparr>) fmempty)
   \<and> (\<exists>room'.
         joinRoom ''R1'' ''p2''
           (fmupd ''R1'' ((new_room ''host1'' 0 :: (string, string) room)
              \<lparr>players := {|''host1'', ''p2''|},
                notifications := (\<lambda>_. [])(''host1'' := [New_player ''p2''])\<rparr>) fmempty)
           = (Inr (Joined_room ''host1'' ''R1''), fmupd ''R1'' room' fmempty)
       \<and> players room' = {|''host1'', ''p2''|}
       \<and> notifications room' ''host1'' = [New_player ''p2'', New_player ''p2''])"
proof -
  let ?full = "(new_room ''host1'' 0 :: (string, string) room)
           \<lparr>players := {|''host1'', ''p2'', ''p3'', ''p4'', ''p5'', ''p6'', ''p7'', ''p8''|}\<rparr>"
  let ?dbf = "fmupd ''R1'' ?full (fmempty :: (string, string, string) db)"
  let ?two = "(new_room ''host1'' 0 :: (string, string) room)
              \<lparr>players := {|''host1'', ''p2''|},
                notifications := (\<lambda>_. [])(''host1'' := [New_player ''p2''])\<rparr>"
  let ?db2 = "fmupd ''R1'' ?two (fmempty :: (string, string, string) db)"
  have c8: "fcard {|''host1'', ''p2'', ''p3'', ''p4'', ''p5'', ''p6'', ''p7'', ''p8''|} = 8"
    by (simp add: fcard_finsert_if)
  have m8: "''p2'' |\<in>| {|''host1'', ''p2'', ''p3'', ''p4'', ''p5'', ''p6'', ''p7'', ''p8''|}" by simp
  have f1: "fmlookup ?dbf ''R1'' = Some ?full" by simp
  have f2: "''p2'' |\<in>| players ?full" by simp
  have f3: "fcard (players ?full) = 8" by (simp add: c8)
  have t1: "fmlookup ?db2 ''R1'' = Some ?two" by simp
  have t2: "''p2'' |\<in>| players ?two" by simp
  have t3: "fcard (players ?two) < 8" by (simp add: fcard_finsert_if fcard_fempty)
  have "joinRoom ''R1'' ''p2'' ?dbf = (Inl RoomFull, ?dbf)"
    using joinRoom_member_again [OF f1 f2] f3 by blast
  moreover have "\<exists>room'.
         joinRoom ''R1'' ''p2'' ?db2 = (Inr (Joined_room ''host1'' ''R1''), fmupd ''R1'' room' fmempty)
       \<and> players room' = {|''host1'', ''p2''|}
       \<and> notifications room' ''host1'' = [New_player ''p2'', New_player ''p2'']"
  proof -
    obtain room' where r:
        "joinRoom ''R1'' ''p2'' ?db2 = (Inr (Joined_room (host ?two) ''R1''), fmupd ''R1'' room' ?db2)"
        "players room' = players ?two"
        "notifications room' (host ?two) = notifications ?two (host ?two) @ [New_player ''p2'']"
      using joinRoom_member_again [OF t1 t2] t3 by blast
    have "joinRoom ''R1'' ''p2'' ?db2 = (Inr (Joined_room ''host1'' ''R1''), fmupd ''R1'' room' fmempty)"
      using r(1) by (simp add: new_room_def)
    moreover have "players room' = {|''host1'', ''p2''|}" using r(2) by simp
    moreover have "notifications room' ''host1'' = [New_player ''p2'', New_player ''p2'']"
      using r(3) by (simp add: new_room_def)
    ultimately show ?thesis by blast
  qed
  ultimately show ?thesis using c8 m8 by blast
qed

end
